theory Spec2Isabelle
  imports Complex_Main "HOL-Library.AList" "HOL-Library.Sublist"
begin

section \<open>Conventions of the embedding\<close>

text \<open>
  The TypeScript sources are embedded function by function. A JavaScript \<open>number\<close> that the
  code only compares, adds or clamps is a \<^typ>\<open>real\<close> (prices, liquidity, market cap,
  percentages) or an \<^typ>\<open>int\<close> (the risk score, a sum of integer penalties; timestamps in
  milliseconds); rounding, \<open>NaN\<close> and infinite inputs are outside the model, and the one division of
  the monitor has its division by zero written out. A string is a \<^typ>\<open>string\<close>. An awaited
  call that can reject is an input of type \<open>'a awaited\<close>: the caller's \<open>try/catch\<close> is a case
  distinction on it. Messages that the code builds from emoji and formatted numbers are constructors
  of a datatype that carry the number.
\<close>

datatype 'a awaited = Throws | Returns 'a

section \<open>Configuration (\<open>config.ts\<close>)\<close>

record config =
  authorizedUsers :: "string list"
  takeProfitPercent :: real
  stopLossPercent :: real
  maxHoldTime :: int
  minLiquidity :: real
  minMarketCap :: real
  maxRiskScore :: int

text \<open>\<open>s.split(',')\<close>: the pieces between commas; the empty string gives one empty piece.\<close>

fun split_comma :: "string \<Rightarrow> string list" where
  "split_comma [] = [[]]"
| "split_comma (c # cs) =
     (if c = CHR '','' then [] # split_comma cs
      else (case split_comma cs of [] \<Rightarrow> [[c]] | w # ws \<Rightarrow> (c # w) # ws))"

text \<open>
  \<open>(process.env.AUTHORIZED_USERS || '').split(',').filter(Boolean)\<close>: an unset variable is the
  empty string, and \<open>filter(Boolean)\<close> drops the empty pieces.
\<close>

definition parseAuthorizedUsers :: "string option \<Rightarrow> string list" where
  "parseAuthorizedUsers env =
     filter (\<lambda>w. w \<noteq> []) (split_comma (case env of None \<Rightarrow> [] | Some v \<Rightarrow> v))"

text \<open>The values \<open>config.ts\<close> takes when no environment variable is set.\<close>

definition defaultConfig :: config where
  "defaultConfig =
     \<lparr>authorizedUsers = parseAuthorizedUsers None,
      takeProfitPercent = 20, stopLossPercent = -10, maxHoldTime = 300000,
      minLiquidity = 1000, minMarketCap = 5000, maxRiskScore = 7\<rparr>"

section \<open>Token validator (\<open>token-validator.ts\<close>)\<close>

record MarketData =
  liquidity :: real
  marketCap :: real
  price :: real

text \<open>
  The parsed mint account: \<open>mintData.parsed.info\<close>; \<open>None\<close> in a field is JavaScript's
  \<open>null\<close>.
\<close>

record MintInfo =
  mintAuthority :: "string option"
  freezeAuthority :: "string option"

text \<open>The entries of \<open>reasons\<close>, by the message each one is.\<close>

datatype finding =
    MintAuthorityEnabled
  | FreezeAuthorityEnabled
  | LowLiquidity real
  | LowMarketCap real
  | ConcentratedOwnership real
  | FewHolders nat
  | AuthorityRevoked
  | StrongLiquidity real
  | FailedToValidate

record TokenValidation =
  isValid :: bool
  riskScore :: int
  liquidity :: real
  marketCap :: real
  holderCount :: nat
  topHolderPercent :: real
  hasLiquidityLock :: bool
  canMint :: bool
  canFreeze :: bool
  reasons :: "finding list"

text \<open>
  What \<open>validateToken\<close> awaits inside its \<open>try\<close>: \<open>getMarketData\<close> and
  \<open>getHolderDistribution\<close> catch their own errors and always return; the account lookup
  \<open>getParsedAccountInfo(new PublicKey(tokenMint))\<close> can throw, and \<open>Throws\<close> is every run
  that ends in the \<open>catch\<close> of \<open>validateToken\<close>. The value of the lookup is \<open>None\<close>
  when the account is missing or its data is not parsed.
\<close>

record upstream =
  marketData :: MarketData
  mintInfo :: "MintInfo option awaited"
  holderDistribution :: "nat \<times> real"

definition validateToken :: "config \<Rightarrow> upstream \<Rightarrow> TokenValidation" where
  "validateToken cfg up =
     (case mintInfo up of
        Throws \<Rightarrow>
          \<lparr>isValid = False, riskScore = 10, liquidity = 0, marketCap = 0, holderCount = 0,
           topHolderPercent = 0, hasLiquidityLock = False, canMint = True, canFreeze = True,
           reasons = [FailedToValidate]\<rparr>
      | Returns mintData \<Rightarrow>
          (let md = marketData up;
               canMint = (case mintData of None \<Rightarrow> False | Some i \<Rightarrow> mintAuthority i \<noteq> None);
               canFreeze = (case mintData of None \<Rightarrow> False | Some i \<Rightarrow> freezeAuthority i \<noteq> None);
               (riskScore, reasons) = (0, []);
               (riskScore, reasons) =
                 (if canMint then (riskScore + 3, reasons @ [MintAuthorityEnabled])
                  else (riskScore, reasons));
               (riskScore, reasons) =
                 (if canFreeze then (riskScore + 2, reasons @ [FreezeAuthorityEnabled])
                  else (riskScore, reasons));
               (riskScore, reasons) =
                 (if MarketData.liquidity md < minLiquidity cfg
                  then (riskScore + 2, reasons @ [LowLiquidity (MarketData.liquidity md)])
                  else (riskScore, reasons));
               (riskScore, reasons) =
                 (if MarketData.marketCap md < minMarketCap cfg
                  then (riskScore + 1, reasons @ [LowMarketCap (MarketData.marketCap md)])
                  else (riskScore, reasons));
               (holderCount, topHolderPercent) = holderDistribution up;
               (riskScore, reasons) =
                 (if topHolderPercent > 50
                  then (riskScore + 2, reasons @ [ConcentratedOwnership topHolderPercent])
                  else (riskScore, reasons));
               (riskScore, reasons) =
                 (if holderCount < 10 then (riskScore + 1, reasons @ [FewHolders holderCount])
                  else (riskScore, reasons));
               reasons =
                 (if \<not> canMint \<and> \<not> canFreeze then reasons @ [AuthorityRevoked] else reasons);
               reasons =
                 (if MarketData.liquidity md \<ge> minLiquidity cfg * 2
                  then reasons @ [StrongLiquidity (MarketData.liquidity md)] else reasons);
               isValid = (riskScore \<le> maxRiskScore cfg
                          \<and> MarketData.liquidity md \<ge> minLiquidity cfg
                          \<and> MarketData.marketCap md \<ge> minMarketCap cfg)
           in \<lparr>isValid = isValid, riskScore = riskScore, liquidity = MarketData.liquidity md,
               marketCap = MarketData.marketCap md, holderCount = holderCount,
               topHolderPercent = topHolderPercent, hasLiquidityLock = False,
               canMint = canMint, canFreeze = canFreeze, reasons = reasons\<rparr>))"

section \<open>AI analysis (\<open>ai-analysis.ts\<close>)\<close>

datatype recommendation = BUY | HOLD | AVOID

text \<open>
  \<open>keyPoints\<close>, which \<open>extractKeyPoints\<close> reads off the text alone, is not part of the model.
\<close>

record TokenAnalysis =
  summary :: string
  recommendation :: recommendation
  confidence :: int

text \<open>
  \<open>toLowerCase\<close> on the letters \<open>A\<close> to \<open>Z\<close>; every other character is kept. The keywords
  searched for are ASCII.
\<close>

definition lower_char :: "char \<Rightarrow> char" where
  "lower_char c =
     (if 65 \<le> (of_char c :: nat) \<and> (of_char c :: nat) \<le> 90
      then char_of ((of_char c :: nat) + 32) else c)"

definition toLowerCase :: "string \<Rightarrow> string" where
  "toLowerCase s = map lower_char s"

text \<open>\<open>s.includes(t)\<close>: \<open>t\<close> occurs in \<open>s\<close> as a contiguous piece.\<close>

definition str_includes :: "string \<Rightarrow> string \<Rightarrow> bool" where
  "str_includes s t = sublist t s"

definition extractRecommendation :: "string \<Rightarrow> TokenValidation \<Rightarrow> recommendation" where
  "extractRecommendation analysis validation =
     (let lowerAnalysis = toLowerCase analysis in
      if str_includes lowerAnalysis ''strong buy''
         \<or> (str_includes lowerAnalysis ''buy'' \<and> riskScore validation \<le> 3) then BUY
      else if str_includes lowerAnalysis ''avoid'' \<or> riskScore validation \<ge> 7 then AVOID
      else if str_includes lowerAnalysis ''buy'' \<and> riskScore validation \<le> 5 then BUY
      else HOLD)"

definition calculateConfidence :: "config \<Rightarrow> TokenValidation \<Rightarrow> int" where
  "calculateConfidence cfg validation =
     (let baseConfidence = 100 - riskScore validation * 10;
          adjustment = 0;
          adjustment =
            (if liquidity validation \<ge> minLiquidity cfg * 3 then adjustment + 10 else adjustment);
          adjustment =
            (if marketCap validation \<ge> minMarketCap cfg * 3 then adjustment + 10 else adjustment);
          adjustment =
            (if \<not> canMint validation \<and> \<not> canFreeze validation then adjustment + 15
             else adjustment)
      in min 100 (max 0 (baseConfidence + adjustment)))"

text \<open>The summary of the fallback starts with a warning sign, left out of the literal here.\<close>

definition fallbackAnalysis :: "config \<Rightarrow> TokenValidation \<Rightarrow> TokenAnalysis" where
  "fallbackAnalysis cfg validation =
     (let summary = '' AI analysis unavailable. Using rule-based assessment:'' @ [CHR 10, CHR 10];
          (summary, recommendation) =
            (if riskScore validation \<ge> 7
             then (summary @ ''HIGH RISK token. Multiple red flags detected. Proceed with extreme caution.'',
                   AVOID)
             else if riskScore validation \<le> 3
             then (summary @ ''LOW RISK token. Looks relatively safe. Consider buying with proper position sizing.'',
                   BUY)
             else (summary @ ''MEDIUM RISK token. Some concerns but potentially tradeable. Use tight stop loss.'',
                   HOLD))
      in \<lparr>summary = summary, recommendation = recommendation,
          confidence = calculateConfidence cfg validation\<rparr>)"

text \<open>
  The model's answer is the awaited input: \<open>Throws\<close> when the request rejects or carries no
  choice, \<open>Returns content\<close> otherwise, with \<open>None\<close> for a \<open>null\<close> content
  (\<open>content || ''\<close>).
\<close>

definition analyzeToken ::
  "config \<Rightarrow> string option awaited \<Rightarrow> TokenValidation \<Rightarrow> TokenAnalysis" where
  "analyzeToken cfg response validation =
     (case response of
        Throws \<Rightarrow> fallbackAnalysis cfg validation
      | Returns content \<Rightarrow>
          (let analysis = (case content of None \<Rightarrow> [] | Some c \<Rightarrow> c);
               recommendation = extractRecommendation analysis validation;
               confidence = calculateConfidence cfg validation
           in \<lparr>summary = analysis, recommendation = recommendation, confidence = confidence\<rparr>))"

section \<open>Position monitor (\<open>position-monitor.ts\<close>)\<close>

record Position =
  tokenMint :: string
  tokenSymbol :: string
  entryPrice :: real
  entryTime :: int
  amountSol :: real
  active :: bool

text \<open>
  The two maps of the class keep insertion order, as a JavaScript \<open>Map\<close> does: association
  lists, read with \<^const>\<open>map_of\<close>, written with \<^const>\<open>AList.update\<close> (\<open>set\<close>) and
  \<^const>\<open>AList.delete\<close>. A timer handle (a \<open>Timeout\<close> object, never falsy) is the
  number that identifies it; \<open>timers\<close> holds the handles that \<open>setInterval\<close> has started
  and \<open>clearInterval\<close> has not stopped.
\<close>

record PositionMonitor =
  positions :: "(string \<times> Position) list"
  monitoringIntervals :: "(string \<times> nat) list"
  timers :: "nat list"
  nextTimer :: nat

definition newMonitor :: PositionMonitor where
  "newMonitor = \<lparr>positions = [], monitoringIntervals = [], timers = [], nextTimer = 0\<rparr>"

text \<open>
  The two price sources, as awaited inputs. Jupiter: \<open>Throws\<close> when the request fails or the
  answer has no \<open>data\<close>, else the \<open>price\<close> of the mint's entry if there is one. DEX Screener:
  the list of pairs of the answer, each by its parsed \<open>priceUsd\<close> if it has one.
\<close>

record priceFeeds =
  jupiter :: "real option awaited"
  dexScreener :: "real option list awaited"

definition getCurrentPrice :: "priceFeeds \<Rightarrow> real" where
  "getCurrentPrice feeds =
     (case jupiter feeds of
        Returns p \<Rightarrow> (case p of None \<Rightarrow> 0 | Some x \<Rightarrow> x)
      | Throws \<Rightarrow>
          (case dexScreener feeds of
             Returns (p # _) \<Rightarrow> (case p of None \<Rightarrow> 0 | Some x \<Rightarrow> x)
           | Returns [] \<Rightarrow> 0
           | Throws \<Rightarrow> 0))"

text \<open>
  The value of \<open>((currentPrice - entryPrice) / entryPrice) * 100\<close>: JavaScript divides by zero
  to an infinity or to \<open>NaN\<close>, and every comparison with \<open>NaN\<close> is false.
\<close>

datatype jsnum = Finite real | PosInfinity | NegInfinity | NaN

definition profitPercentOf :: "real \<Rightarrow> real \<Rightarrow> jsnum" where
  "profitPercentOf current entry =
     (if entry \<noteq> 0 then Finite ((current - entry) / entry * 100)
      else if current - entry > 0 then PosInfinity
      else if current - entry < 0 then NegInfinity
      else NaN)"

fun num_ge :: "jsnum \<Rightarrow> real \<Rightarrow> bool" where
  "num_ge (Finite x) t = (x \<ge> t)"
| "num_ge PosInfinity t = True"
| "num_ge NegInfinity t = False"
| "num_ge NaN t = False"

fun num_le :: "jsnum \<Rightarrow> real \<Rightarrow> bool" where
  "num_le (Finite x) t = (x \<le> t)"
| "num_le PosInfinity t = False"
| "num_le NegInfinity t = True"
| "num_le NaN t = False"

text \<open>The reason strings, by their kind and the number each one shows.\<close>

datatype exitReason =
    TakeProfitHit jsnum
  | StopLossHit jsnum
  | MaxHoldTimeReached int
  | ManualExit

record ExitResult =
  reason :: exitReason
  signature :: string
  finalPrice :: real

datatype error = NoActivePosition | SellFailed

text \<open>
  \<open>sellToken\<close> is the awaited input \<open>sell\<close>: \<open>Throws\<close> when the trade executor fails at any
  stage, \<open>Returns signature\<close> when the sale is confirmed. The price read for \<open>finalPrice\<close>
  never throws. The result is \<open>Inl\<close> for the rethrown error, \<open>Inr None\<close> for the bare
  \<open>return\<close>.
\<close>

definition exitPosition ::
  "PositionMonitor \<Rightarrow> string \<Rightarrow> exitReason \<Rightarrow> string awaited \<Rightarrow> priceFeeds
     \<Rightarrow> (error + ExitResult option) \<times> PositionMonitor" where
  "exitPosition mon mint why sell feeds =
     (case map_of (positions mon) mint of
        None \<Rightarrow> (Inr None, mon)
      | Some position \<Rightarrow>
          if \<not> active position then (Inr None, mon)
          else
            (case sell of
               Throws \<Rightarrow> (Inl SellFailed, mon)
             | Returns sig \<Rightarrow>
                 (let mon = mon\<lparr>positions :=
                              AList.update mint (position\<lparr>active := False\<rparr>) (positions mon)\<rparr>;
                      mon = (case map_of (monitoringIntervals mon) mint of
                               None \<Rightarrow> mon
                             | Some interval \<Rightarrow>
                                 mon\<lparr>timers := removeAll interval (timers mon),
                                     monitoringIntervals :=
                                       AList.delete mint (monitoringIntervals mon)\<rparr>)
                  in (Inr (Some \<lparr>reason = why, signature = sig,
                                  finalPrice = getCurrentPrice feeds\<rparr>), mon))))"

text \<open>What one polling cycle did.\<close>

datatype cycle =
    NotMonitored
  | PriceUnavailable
  | Held
  | ExitFired exitReason "error + ExitResult option"

text \<open>
  \<open>checkPosition\<close>, with the clock (\<open>Date.now()\<close>) and the awaited calls as inputs: the price
  sources of this cycle, and the sale and the price sources \<open>exitPosition\<close> reads. The
  \<open>catch\<close> of the cycle logs the error of a failed sale and drops it.
\<close>

definition checkPosition ::
  "config \<Rightarrow> PositionMonitor \<Rightarrow> string \<Rightarrow> priceFeeds \<Rightarrow> int \<Rightarrow> string awaited \<Rightarrow> priceFeeds
     \<Rightarrow> cycle \<times> PositionMonitor" where
  "checkPosition cfg mon mint feeds now sell finalFeeds =
     (case map_of (positions mon) mint of
        None \<Rightarrow> (NotMonitored, mon)
      | Some position \<Rightarrow>
          if \<not> active position then (NotMonitored, mon)
          else
            (let currentPrice = getCurrentPrice feeds in
             if currentPrice = 0 then (PriceUnavailable, mon)
             else
               (let profitPercent = profitPercentOf currentPrice (entryPrice position);
                    timeHeld = now - entryTime position;
                    shouldExit =
                      (num_ge profitPercent (takeProfitPercent cfg)
                       \<or> num_le profitPercent (stopLossPercent cfg)
                       \<or> timeHeld \<ge> maxHoldTime cfg)
                in if shouldExit then
                     (let why =
                            (if num_ge profitPercent (takeProfitPercent cfg)
                             then TakeProfitHit profitPercent
                             else if num_le profitPercent (stopLossPercent cfg)
                             then StopLossHit profitPercent
                             else MaxHoldTimeReached (timeHeld div 60000));
                          (result, mon) = exitPosition mon mint why sell finalFeeds
                      in (ExitFired why result, mon))
                   else (Held, mon))))"

definition manualExit ::
  "PositionMonitor \<Rightarrow> string \<Rightarrow> string awaited \<Rightarrow> priceFeeds
     \<Rightarrow> (error + string) \<times> PositionMonitor" where
  "manualExit mon mint sell feeds =
     (case map_of (positions mon) mint of
        None \<Rightarrow> (Inl NoActivePosition, mon)
      | Some position \<Rightarrow>
          if \<not> active position then (Inl NoActivePosition, mon)
          else
            (case exitPosition mon mint ManualExit sell feeds of
               (Inl e, mon) \<Rightarrow> (Inl e, mon)
             | (Inr result, mon) \<Rightarrow>
                 (Inr (case result of None \<Rightarrow> [] | Some r \<Rightarrow> signature r), mon)))"

definition startMonitoring :: "PositionMonitor \<Rightarrow> string \<Rightarrow> PositionMonitor" where
  "startMonitoring mon mint =
     (let interval = nextTimer mon in
      mon\<lparr>timers := timers mon @ [interval], nextTimer := Suc interval,
          monitoringIntervals := AList.update mint interval (monitoringIntervals mon)\<rparr>)"

definition addPosition ::
  "PositionMonitor \<Rightarrow> string \<Rightarrow> string \<Rightarrow> real \<Rightarrow> real \<Rightarrow> int \<Rightarrow> PositionMonitor" where
  "addPosition mon mint symbol entry amount now =
     (let position = \<lparr>tokenMint = mint, tokenSymbol = symbol, entryPrice = entry,
                       entryTime = now, amountSol = amount, active = True\<rparr>;
          mon = mon\<lparr>positions := AList.update mint position (positions mon)\<rparr>
      in startMonitoring mon mint)"

definition getActivePositions :: "PositionMonitor \<Rightarrow> Position list" where
  "getActivePositions mon = filter active (map snd (positions mon))"

definition hasActivePosition :: "PositionMonitor \<Rightarrow> string \<Rightarrow> bool" where
  "hasActivePosition mon mint =
     (case map_of (positions mon) mint of None \<Rightarrow> False | Some position \<Rightarrow> active position)"

definition stopAll :: "PositionMonitor \<Rightarrow> PositionMonitor" where
  "stopAll mon =
     mon\<lparr>timers := fold removeAll (map snd (monitoringIntervals mon)) (timers mon),
         monitoringIntervals := []\<rparr>"

text \<open>
  The operations of the monitor, each with the inputs it reads, run one after the other: an
  operation is taken to finish before the next one starts.
\<close>

datatype operation =
    AddPosition string string real real int
  | CheckPosition string priceFeeds int "string awaited" priceFeeds
  | ExitPosition string exitReason "string awaited" priceFeeds
  | ManualExitOf string "string awaited" priceFeeds
  | StopAll

fun step :: "config \<Rightarrow> PositionMonitor \<Rightarrow> operation \<Rightarrow> PositionMonitor" where
  "step cfg mon (AddPosition mint symbol entry amount now) =
     addPosition mon mint symbol entry amount now"
| "step cfg mon (CheckPosition mint feeds now sell finalFeeds) =
     snd (checkPosition cfg mon mint feeds now sell finalFeeds)"
| "step cfg mon (ExitPosition mint why sell feeds) = snd (exitPosition mon mint why sell feeds)"
| "step cfg mon (ManualExitOf mint sell feeds) = snd (manualExit mon mint sell feeds)"
| "step cfg mon StopAll = stopAll mon"

definition run :: "config \<Rightarrow> PositionMonitor \<Rightarrow> operation list \<Rightarrow> PositionMonitor" where
  "run cfg mon ops = foldl (step cfg) mon ops"

section \<open>The bot's authorization check (\<open>index.ts\<close>)\<close>

text \<open>
  \<open>userId.toString()\<close> for an integer id: its decimal digits, after a minus sign when it is
  negative (Telegram's ids are positive integers below \<open>2^53\<close>).
\<close>

definition digit_char :: "nat \<Rightarrow> char" where
  "digit_char d = char_of (48 + d)"

function digits :: "nat \<Rightarrow> string" where
  "digits n = (if n < 10 then [digit_char n] else digits (n div 10) @ [digit_char (n mod 10)])"
  by pat_completeness auto
termination
  by (relation "measure (\<lambda>n. n)") auto

declare digits.simps [simp del]

definition toString :: "int \<Rightarrow> string" where
  "toString i = (if i < 0 then CHR ''-'' # digits (nat (- i)) else digits (nat i))"

definition isAuthorized :: "config \<Rightarrow> int \<Rightarrow> bool" where
  "isAuthorized cfg userId =
     (if length (authorizedUsers cfg) = 0 then True
      else List.member (authorizedUsers cfg) (toString userId))"

section \<open>Example inputs\<close>

text \<open>Concrete inputs at which the theorems below are evaluated.\<close>

definition exampleUpstream :: upstream where
  "exampleUpstream =
     \<lparr>marketData = \<lparr>MarketData.liquidity = 500, MarketData.marketCap = 6000, price = 1\<rparr>,
      mintInfo = Returns (Some \<lparr>mintAuthority = Some ''auth'', freezeAuthority = Some ''auth''\<rparr>),
      holderDistribution = (20, 10)\<rparr>"

definition worstUpstream :: upstream where
  "worstUpstream =
     \<lparr>marketData = \<lparr>MarketData.liquidity = 0, MarketData.marketCap = 0, price = 0\<rparr>,
      mintInfo = Returns (Some \<lparr>mintAuthority = Some ''auth'', freezeAuthority = Some ''auth''\<rparr>),
      holderDistribution = (5, 60)\<rparr>"

definition safeUpstream :: upstream where
  "safeUpstream =
     \<lparr>marketData = \<lparr>MarketData.liquidity = 5000, MarketData.marketCap = 20000, price = 1\<rparr>,
      mintInfo = Returns (Some \<lparr>mintAuthority = None, freezeAuthority = None\<rparr>),
      holderDistribution = (20, 10)\<rparr>"

definition failedValidation :: TokenValidation where
  "failedValidation =
     validateToken defaultConfig
       \<lparr>marketData = \<lparr>MarketData.liquidity = 0, MarketData.marketCap = 0, price = 0\<rparr>,
        mintInfo = Throws, holderDistribution = (0, 0)\<rparr>"

definition allowTwo :: config where
  "allowTwo = defaultConfig\<lparr>authorizedUsers := parseAuthorizedUsers (Some ''123,456'')\<rparr>"

definition noPrice :: priceFeeds where
  "noPrice = \<lparr>jupiter = Throws, dexScreener = Throws\<rparr>"

definition priceAt :: "real \<Rightarrow> priceFeeds" where
  "priceAt x = \<lparr>jupiter = Returns (Some x), dexScreener = Throws\<rparr>"

definition openMonitor :: PositionMonitor where
  "openMonitor = addPosition newMonitor ''MINT'' ''SYM'' 1 (1/2) 1000"

definition buyAgain :: "operation list" where
  "buyAgain = [AddPosition ''MINT'' ''SYM'' 1 (1/2) 1000,
               ManualExitOf ''MINT'' (Returns ''sig'') noPrice,
               AddPosition ''MINT'' ''SYM'' 2 (1/2) 9000]"

definition shutdown :: "operation list" where
  "shutdown = [AddPosition ''MINT'' ''SYM'' 1 (1/2) 1000, StopAll]"

definition twoMints :: "operation list" where
  "twoMints = [AddPosition ''AAA'' ''A'' 1 (1/2) 1000,
               AddPosition ''BBB'' ''B'' 3 (1/10) 2000,
               CheckPosition ''AAA'' (priceAt (5/4)) 3000 (Returns ''sig'') (priceAt (5/4))]"

section \<open>The risk score\<close>

lemma validateToken_failure:
  "mintInfo up = Throws \<Longrightarrow>
   riskScore (validateToken cfg up) = 10 \<and> \<not> isValid (validateToken cfg up)
   \<and> canMint (validateToken cfg up) \<and> canFreeze (validateToken cfg up)"
  by (simp add: validateToken_def)

lemma failedValidation_fields:
  "riskScore failedValidation = 10 \<and> canMint failedValidation \<and> canFreeze failedValidation
   \<and> liquidity failedValidation = 0 \<and> marketCap failedValidation = 0"
  by (simp add: failedValidation_def validateToken_def)

text \<open>
  C7. When the account lookup returns, the risk score of the record \<open>validateToken\<close> returns is
  the sum of the six penalties and nothing else: 3 for an active mint authority, 2 for an active
  freeze authority, 2 for liquidity below the floor, 1 for market cap below the floor, 2 for a top
  holder above 50 percent, 1 for fewer than 10 holders; the flags and metrics it is computed from
  are the ones the record reports.
\<close>

theorem validateToken_riskScore_sum:
  assumes "mintInfo up = Returns mintData"
  shows "riskScore (validateToken cfg up) =
           (if canMint (validateToken cfg up) then 3 else 0)
         + (if canFreeze (validateToken cfg up) then 2 else 0)
         + (if liquidity (validateToken cfg up) < minLiquidity cfg then 2 else 0)
         + (if marketCap (validateToken cfg up) < minMarketCap cfg then 1 else 0)
         + (if topHolderPercent (validateToken cfg up) > 50 then 2 else 0)
         + (if holderCount (validateToken cfg up) < 10 then 1 else 0)
       \<and> canMint (validateToken cfg up) = (\<exists>i. mintData = Some i \<and> mintAuthority i \<noteq> None)
       \<and> canFreeze (validateToken cfg up) = (\<exists>i. mintData = Some i \<and> freezeAuthority i \<noteq> None)
       \<and> liquidity (validateToken cfg up) = MarketData.liquidity (marketData up)
       \<and> marketCap (validateToken cfg up) = MarketData.marketCap (marketData up)
       \<and> holderCount (validateToken cfg up) = fst (holderDistribution up)
       \<and> topHolderPercent (validateToken cfg up) = snd (holderDistribution up)"
  using assms
  by (cases "holderDistribution up")
     (simp add: validateToken_def Let_def split: option.split)

text \<open>
  The example of C7: mint authority and freeze authority active, liquidity (500) below the floor
  (1000), no other penalty: the score is 3 + 2 + 2 = 7.
\<close>

theorem validateToken_riskScore_sum_witness:
  "mintInfo exampleUpstream
     = Returns (Some \<lparr>mintAuthority = Some ''auth'', freezeAuthority = Some ''auth''\<rparr>)
   \<and> riskScore (validateToken defaultConfig exampleUpstream) = 3 + 2 + 2
   \<and> riskScore (validateToken defaultConfig exampleUpstream) = 7"
proof -
  have h: "mintInfo exampleUpstream
             = Returns (Some \<lparr>mintAuthority = Some ''auth'', freezeAuthority = Some ''auth''\<rparr>)"
    by (simp add: exampleUpstream_def)
  from validateToken_riskScore_sum [OF h, of defaultConfig]
  have "riskScore (validateToken defaultConfig exampleUpstream) = 7"
    by (simp add: exampleUpstream_def defaultConfig_def)
  with h show ?thesis by simp
qed

lemma validateToken_riskScore_range:
  "0 \<le> riskScore (validateToken cfg up) \<and> riskScore (validateToken cfg up) \<le> 11"
  by (cases "holderDistribution up")
     (simp add: validateToken_def Let_def split: awaited.split option.split)

text \<open>
  C3. The claim that the risk score of \<open>validateToken\<close> lies between 0 and 10 fails on the
  code: the six penalties add up to 11. With both authorities active, liquidity and market cap
  below their floors, a top holder at 60 percent and 5 holders, the score returned is 11.
\<close>

theorem validateToken_riskScore_eleven:
  "riskScore (validateToken defaultConfig worstUpstream) = 11"
  by (simp add: validateToken_def worstUpstream_def defaultConfig_def)

section \<open>Recommendation and confidence\<close>

text \<open>
  C2, as the claim states it, fails: the text \<open>STRONG BUY\<close> gives BUY at risk score 10 (the
  record of the validator's failure path).
\<close>

theorem extractRecommendation_strong_buy_counterexample:
  "riskScore failedValidation \<ge> 7
   \<and> extractRecommendation ''This is a STRONG BUY, ape in.'' failedValidation = BUY
   \<and> recommendation
       (analyzeToken defaultConfig (Returns (Some ''This is a STRONG BUY, ape in.''))
          failedValidation) = BUY"
proof -
  have r: "riskScore failedValidation = 10" by (simp add: failedValidation_fields)
  have t: "str_includes (toLowerCase ''This is a STRONG BUY, ape in.'') ''strong buy''"
    by code_simp
  from r t show ?thesis
    by (simp add: analyzeToken_def extractRecommendation_def Let_def)
qed

text \<open>
  C2, amended. If the risk score is at least 7, \<open>extractRecommendation\<close> (and
  \<open>analyzeToken\<close> on the path where the model answers) returns AVOID unless the lower-cased
  text contains \<open>strong buy\<close>; when it does, the result is BUY.
\<close>

theorem extractRecommendation_high_risk:
  assumes "riskScore validation \<ge> 7"
  shows "extractRecommendation analysis validation =
           (if str_includes (toLowerCase analysis) ''strong buy'' then BUY else AVOID)
       \<and> recommendation (analyzeToken cfg (Returns content) validation) =
           (if str_includes (toLowerCase (case content of None \<Rightarrow> [] | Some c \<Rightarrow> c))
                 ''strong buy''
            then BUY else AVOID)"
  using assms by (simp add: extractRecommendation_def analyzeToken_def Let_def)

text \<open>At risk score 10, a text that says \<open>buy\<close> but not \<open>strong buy\<close> gives AVOID.\<close>

theorem extractRecommendation_high_risk_witness:
  "riskScore failedValidation \<ge> 7
   \<and> extractRecommendation ''Looks like a buy'' failedValidation = AVOID
   \<and> recommendation
       (analyzeToken defaultConfig (Returns (Some ''Looks like a buy'')) failedValidation) = AVOID"
proof -
  have h: "riskScore failedValidation \<ge> 7" by (simp add: failedValidation_fields)
  have l: "\<not> str_includes (toLowerCase ''Looks like a buy'') ''strong buy''" by code_simp
  from extractRecommendation_high_risk
         [OF h, of "''Looks like a buy''" defaultConfig "Some ''Looks like a buy''"] h l
  show ?thesis by simp
qed

text \<open>
  C8. The confidence is 100 minus ten times the risk score, plus 10 when liquidity is at least
  three times its floor, plus 10 when market cap is at least three times its floor, plus 15 when
  neither mint nor freeze authority is active, clamped to the interval from 0 to 100. With risk
  score 0 and all three bonuses it is 100.
\<close>

theorem calculateConfidence_clamped:
  "calculateConfidence cfg v =
     min 100 (max 0 (100 - riskScore v * 10
       + (if liquidity v \<ge> 3 * minLiquidity cfg then 10 else 0)
       + (if marketCap v \<ge> 3 * minMarketCap cfg then 10 else 0)
       + (if \<not> canMint v \<and> \<not> canFreeze v then 15 else 0)))
   \<and> 0 \<le> calculateConfidence cfg v \<and> calculateConfidence cfg v \<le> 100
   \<and> (riskScore v = 0 \<and> liquidity v \<ge> 3 * minLiquidity cfg \<and> marketCap v \<ge> 3 * minMarketCap cfg
        \<and> \<not> canMint v \<and> \<not> canFreeze v \<longrightarrow> calculateConfidence cfg v = 100)"
  by (simp add: calculateConfidence_def Let_def mult.commute)

text \<open>
  A token with no penalty and every bonus has confidence 100, not 135; the record of the
  validator's failure path has confidence 0.
\<close>

theorem calculateConfidence_clamped_witness:
  "riskScore (validateToken defaultConfig safeUpstream) = 0
   \<and> calculateConfidence defaultConfig (validateToken defaultConfig safeUpstream) = 100
   \<and> calculateConfidence defaultConfig failedValidation = 0"
proof -
  let ?v = "validateToken defaultConfig safeUpstream"
  have v: "riskScore ?v = 0 \<and> liquidity ?v \<ge> 3 * minLiquidity defaultConfig
           \<and> marketCap ?v \<ge> 3 * minMarketCap defaultConfig \<and> \<not> canMint ?v \<and> \<not> canFreeze ?v"
    by (simp add: validateToken_def safeUpstream_def defaultConfig_def)
  from calculateConfidence_clamped [of defaultConfig ?v] v
  have "calculateConfidence defaultConfig ?v = 100" by blast
  moreover from calculateConfidence_clamped [of defaultConfig failedValidation]
    failedValidation_fields
  have "calculateConfidence defaultConfig failedValidation = 0"
    by (simp add: defaultConfig_def)
  ultimately show ?thesis using v by simp
qed

section \<open>The effect of each monitor operation\<close>

lemma exitPosition_positions:
  "map_of (positions (snd (exitPosition mon mint why sell feeds))) m =
     (case map_of (positions mon) mint of
        None \<Rightarrow> map_of (positions mon) m
      | Some position \<Rightarrow>
          if active position \<and> sell \<noteq> Throws \<and> m = mint then Some (position\<lparr>active := False\<rparr>)
          else map_of (positions mon) m)"
  by (simp add: exitPosition_def Let_def update_conv' split: option.split awaited.split)

lemma exitPosition_intervals:
  "map_of (monitoringIntervals (snd (exitPosition mon mint why sell feeds))) m =
     (if hasActivePosition mon mint \<and> sell \<noteq> Throws \<and> m = mint then None
      else map_of (monitoringIntervals mon) m)"
  by (simp add: exitPosition_def hasActivePosition_def Let_def delete_conv'
           split: option.split awaited.split)

lemma exitPosition_hasActive:
  "hasActivePosition (snd (exitPosition mon mint why sell feeds)) m =
     (hasActivePosition mon m \<and> \<not> (hasActivePosition mon mint \<and> sell \<noteq> Throws \<and> m = mint))"
  by (auto simp add: hasActivePosition_def exitPosition_positions split: option.split)

lemma checkPosition_state:
  "snd (checkPosition cfg mon mint feeds now sell finalFeeds) = mon
   \<or> (\<exists>why. snd (checkPosition cfg mon mint feeds now sell finalFeeds)
              = snd (exitPosition mon mint why sell finalFeeds))"
  by (auto simp add: checkPosition_def Let_def split_beta split: option.split)

lemma manualExit_state:
  "snd (manualExit mon mint sell feeds) = mon
   \<or> snd (manualExit mon mint sell feeds) = snd (exitPosition mon mint ManualExit sell feeds)"
  by (simp add: manualExit_def split: option.split prod.split sum.split)

lemma manualExit_no_position:
  "\<not> hasActivePosition mon mint \<Longrightarrow> manualExit mon mint sell feeds = (Inl NoActivePosition, mon)"
  by (simp add: manualExit_def hasActivePosition_def split: option.splits)

lemma addPosition_positions:
  "map_of (positions (addPosition mon mint symbol entry amount now)) m =
     (if m = mint then Some \<lparr>tokenMint = mint, tokenSymbol = symbol, entryPrice = entry,
                             entryTime = now, amountSol = amount, active = True\<rparr>
      else map_of (positions mon) m)"
  by (simp add: addPosition_def startMonitoring_def Let_def update_conv')

lemma addPosition_intervals:
  "map_of (monitoringIntervals (addPosition mon mint symbol entry amount now)) m =
     (if m = mint then Some (nextTimer mon) else map_of (monitoringIntervals mon) m)"
  by (simp add: addPosition_def startMonitoring_def Let_def update_conv')

lemma addPosition_hasActive:
  "hasActivePosition (addPosition mon mint symbol entry amount now) m =
     (m = mint \<or> hasActivePosition mon m)"
  by (simp add: hasActivePosition_def addPosition_positions)

lemma stopAll_positions: "positions (stopAll mon) = positions mon"
  by (simp add: stopAll_def)

lemma stopAll_intervals: "monitoringIntervals (stopAll mon) = []"
  by (simp add: stopAll_def)

lemma stopAll_hasActive: "hasActivePosition (stopAll mon) m = hasActivePosition mon m"
  by (simp add: hasActivePosition_def stopAll_positions)

lemma run_snoc: "run cfg mon (ops @ [op]) = step cfg (run cfg mon ops) op"
  by (simp add: run_def)

lemma run_Cons: "run cfg mon (op # ops) = run cfg (step cfg mon op) ops"
  by (simp add: run_def)

lemma getCurrentPrice_priceAt: "getCurrentPrice (priceAt x) = x"
  by (simp add: getCurrentPrice_def priceAt_def)

lemma getCurrentPrice_noPrice: "getCurrentPrice noPrice = 0"
  by (simp add: getCurrentPrice_def noPrice_def)

lemma openMonitor_eq:
  "openMonitor =
     \<lparr>positions = [(''MINT'', \<lparr>tokenMint = ''MINT'', tokenSymbol = ''SYM'', entryPrice = 1,
                               entryTime = 1000, amountSol = 1/2, active = True\<rparr>)],
      monitoringIntervals = [(''MINT'', 0)], timers = [0], nextTimer = 1\<rparr>"
  by (simp add: openMonitor_def addPosition_def startMonitoring_def newMonitor_def)

lemma run_sold:
  "run defaultConfig newMonitor (take 2 buyAgain) =
     \<lparr>positions = [(''MINT'', \<lparr>tokenMint = ''MINT'', tokenSymbol = ''SYM'', entryPrice = 1,
                               entryTime = 1000, amountSol = 1/2, active = False\<rparr>)],
      monitoringIntervals = [], timers = [], nextTimer = 1\<rparr>"
  by (simp add: run_def buyAgain_def addPosition_def startMonitoring_def newMonitor_def
        manualExit_def exitPosition_def Let_def AList.delete_eq)

lemma run_twoMints:
  "run defaultConfig newMonitor twoMints =
     \<lparr>positions =
        [(''AAA'', \<lparr>tokenMint = ''AAA'', tokenSymbol = ''A'', entryPrice = 1, entryTime = 1000,
                    amountSol = 1/2, active = False\<rparr>),
         (''BBB'', \<lparr>tokenMint = ''BBB'', tokenSymbol = ''B'', entryPrice = 3, entryTime = 2000,
                    amountSol = 1/10, active = True\<rparr>)],
      monitoringIntervals = [(''BBB'', 1)], timers = [1], nextTimer = 2\<rparr>"
  by (simp add: run_def twoMints_def addPosition_def startMonitoring_def newMonitor_def
        checkPosition_def exitPosition_def getCurrentPrice_priceAt profitPercentOf_def
        defaultConfig_def Let_def AList.delete_eq)

section \<open>A failed exit\<close>

text \<open>
  C1, as the claim states it, fails: \<open>position.active = false\<close> stands after the awaited
  sale, so a sale that throws leaves the position active and the monitor as it was.
\<close>

theorem exitPosition_failed_sell_counterexample:
  "hasActivePosition openMonitor ''MINT''
   \<and> exitPosition openMonitor ''MINT'' ManualExit Throws noPrice = (Inl SellFailed, openMonitor)
   \<and> hasActivePosition (snd (exitPosition openMonitor ''MINT'' ManualExit Throws noPrice)) ''MINT''"
  by (simp add: exitPosition_def hasActivePosition_def openMonitor_eq)

text \<open>
  C1, amended. For every registered position with active=true, an \<open>exitPosition\<close> call whose
  sell request fails rethrows the error and leaves the monitor unchanged: the position stays
  active and keeps its monitoring task. A call whose sell request succeeds returns the result
  record, marks the position active=false and removes its monitoring task. There is no distinct
  error state.
\<close>

theorem exitPosition_sell_outcome:
  assumes "map_of (positions mon) mint = Some position" and "active position"
  shows "exitPosition mon mint why Throws feeds = (Inl SellFailed, mon)
       \<and> hasActivePosition (snd (exitPosition mon mint why Throws feeds)) mint
       \<and> fst (exitPosition mon mint why (Returns sig) feeds)
           = Inr (Some \<lparr>reason = why, signature = sig, finalPrice = getCurrentPrice feeds\<rparr>)
       \<and> map_of (positions (snd (exitPosition mon mint why (Returns sig) feeds))) mint
           = Some (position\<lparr>active := False\<rparr>)
       \<and> map_of (monitoringIntervals (snd (exitPosition mon mint why (Returns sig) feeds))) mint
           = None"
  using assms
  by (simp add: exitPosition_positions exitPosition_intervals hasActivePosition_def)
     (simp add: exitPosition_def Let_def split: option.split)

theorem exitPosition_sell_outcome_witness:
  "exitPosition openMonitor ''MINT'' ManualExit Throws noPrice = (Inl SellFailed, openMonitor)
   \<and> \<not> hasActivePosition
         (snd (exitPosition openMonitor ''MINT'' ManualExit (Returns ''sig'') noPrice)) ''MINT''
   \<and> map_of (monitoringIntervals
        (snd (exitPosition openMonitor ''MINT'' ManualExit (Returns ''sig'') noPrice))) ''MINT''
       = None"
proof -
  let ?position = "\<lparr>tokenMint = ''MINT'', tokenSymbol = ''SYM'', entryPrice = 1,
                       entryTime = 1000, amountSol = 1/2, active = True\<rparr>"
  have 1: "map_of (positions openMonitor) ''MINT'' = Some ?position"
    by (simp add: openMonitor_eq)
  have 2: "active ?position" by simp
  from exitPosition_sell_outcome [OF 1 2, of ManualExit noPrice "''sig''"]
  show ?thesis by (simp add: hasActivePosition_def)
qed

section \<open>The polling cycle\<close>

text \<open>
  C4. Every cycle of \<open>checkPosition\<close> in which an exit fires is a cycle on an active
  position with a price, and the reason it reports and passes to \<open>exitPosition\<close> is the first
  that matches in the order take-profit, stop-loss, max-hold-time. On an active position with a
  price an exit fires exactly when one of the three conditions holds; whenever the take-profit
  condition holds the reason is take-profit, also when the hold time has reached its limit;
  stop-loss is reported only when take-profit does not hold, and max-hold-time only when neither
  of the two holds.
\<close>

theorem checkPosition_reason_priority:
  "(fst (checkPosition cfg mon mint feeds now sell finalFeeds) = ExitFired why r \<longrightarrow>
      (\<exists>position. map_of (positions mon) mint = Some position \<and> active position
         \<and> getCurrentPrice feeds \<noteq> 0
         \<and> why =
             (if num_ge (profitPercentOf (getCurrentPrice feeds) (entryPrice position))
                   (takeProfitPercent cfg)
              then TakeProfitHit (profitPercentOf (getCurrentPrice feeds) (entryPrice position))
              else if num_le (profitPercentOf (getCurrentPrice feeds) (entryPrice position))
                        (stopLossPercent cfg)
              then StopLossHit (profitPercentOf (getCurrentPrice feeds) (entryPrice position))
              else MaxHoldTimeReached ((now - entryTime position) div 60000))))
   \<and> (map_of (positions mon) mint = Some position \<and> active position
        \<and> getCurrentPrice feeds \<noteq> 0
        \<and> p = profitPercentOf (getCurrentPrice feeds) (entryPrice position)
        \<and> t = now - entryTime position \<longrightarrow>
        ((\<exists>why r. fst (checkPosition cfg mon mint feeds now sell finalFeeds) = ExitFired why r)
           = (num_ge p (takeProfitPercent cfg) \<or> num_le p (stopLossPercent cfg)
              \<or> t \<ge> maxHoldTime cfg))
        \<and> (num_ge p (takeProfitPercent cfg) \<longrightarrow>
             (\<exists>r. fst (checkPosition cfg mon mint feeds now sell finalFeeds)
                    = ExitFired (TakeProfitHit p) r))
        \<and> (\<not> num_ge p (takeProfitPercent cfg) \<and> num_le p (stopLossPercent cfg) \<longrightarrow>
             (\<exists>r. fst (checkPosition cfg mon mint feeds now sell finalFeeds)
                    = ExitFired (StopLossHit p) r))
        \<and> (\<not> num_ge p (takeProfitPercent cfg) \<and> \<not> num_le p (stopLossPercent cfg)
             \<and> t \<ge> maxHoldTime cfg \<longrightarrow>
             (\<exists>r. fst (checkPosition cfg mon mint feeds now sell finalFeeds)
                    = ExitFired (MaxHoldTimeReached (t div 60000)) r)))"
proof (intro conjI impI)
  assume "fst (checkPosition cfg mon mint feeds now sell finalFeeds) = ExitFired why r"
  then show "\<exists>position. map_of (positions mon) mint = Some position \<and> active position
         \<and> getCurrentPrice feeds \<noteq> 0
         \<and> why =
             (if num_ge (profitPercentOf (getCurrentPrice feeds) (entryPrice position))
                   (takeProfitPercent cfg)
              then TakeProfitHit (profitPercentOf (getCurrentPrice feeds) (entryPrice position))
              else if num_le (profitPercentOf (getCurrentPrice feeds) (entryPrice position))
                        (stopLossPercent cfg)
              then StopLossHit (profitPercentOf (getCurrentPrice feeds) (entryPrice position))
              else MaxHoldTimeReached ((now - entryTime position) div 60000))"
    by (auto simp add: checkPosition_def Let_def split_beta split: option.splits if_splits)
qed (simp_all add: checkPosition_def Let_def split_beta)

text \<open>
  A position entered at price 1 under the default thresholds (20 percent, -10 percent, 300
  seconds). At price 1.25 after 900 seconds the take-profit and the max-hold condition both hold
  and the reason is take-profit; at price 0.85 after 1 second it is stop-loss; at price 1 after 900
  seconds it is max-hold-time, in minutes; at price 1 after 1 second no exit fires.
\<close>

theorem checkPosition_reason_priority_witness:
  "fst (checkPosition defaultConfig openMonitor ''MINT'' (priceAt (5/4)) 901000 (Returns ''sig'')
          (priceAt (5/4)))
     = ExitFired (TakeProfitHit (Finite 25))
         (Inr (Some \<lparr>reason = TakeProfitHit (Finite 25), signature = ''sig'', finalPrice = 5/4\<rparr>))
   \<and> num_ge (Finite 25) (takeProfitPercent defaultConfig)
   \<and> 901000 - 1000 \<ge> maxHoldTime defaultConfig
   \<and> fst (checkPosition defaultConfig openMonitor ''MINT'' (priceAt (17/20)) 2000 Throws noPrice)
     = ExitFired (StopLossHit (Finite (-15))) (Inl SellFailed)
   \<and> fst (checkPosition defaultConfig openMonitor ''MINT'' (priceAt 1) 901000 Throws noPrice)
     = ExitFired (MaxHoldTimeReached 15) (Inl SellFailed)
   \<and> fst (checkPosition defaultConfig openMonitor ''MINT'' (priceAt 1) 2000 Throws noPrice) = Held"
proof -
  let ?position = "\<lparr>tokenMint = ''MINT'', tokenSymbol = ''SYM'', entryPrice = 1,
                       entryTime = 1000, amountSol = 1/2, active = True\<rparr>"
  let ?profit = "checkPosition defaultConfig openMonitor ''MINT'' (priceAt (5/4)) 901000
                  (Returns ''sig'') (priceAt (5/4))"
  let ?loss = "checkPosition defaultConfig openMonitor ''MINT'' (priceAt (17/20)) 2000 Throws noPrice"
  let ?late = "checkPosition defaultConfig openMonitor ''MINT'' (priceAt 1) 901000 Throws noPrice"
  let ?early = "checkPosition defaultConfig openMonitor ''MINT'' (priceAt 1) 2000 Throws noPrice"
  have pos: "map_of (positions openMonitor) ''MINT'' = Some ?position" "active ?position"
    by (simp_all add: openMonitor_eq)
  have price: "getCurrentPrice (priceAt (5/4)) \<noteq> 0" "getCurrentPrice (priceAt (17/20)) \<noteq> 0"
    "getCurrentPrice (priceAt 1) \<noteq> 0"
    by (simp_all add: getCurrentPrice_priceAt)
  have p: "Finite 25 = profitPercentOf (getCurrentPrice (priceAt (5/4))) (entryPrice ?position)"
    "Finite (-15) = profitPercentOf (getCurrentPrice (priceAt (17/20))) (entryPrice ?position)"
    "Finite 0 = profitPercentOf (getCurrentPrice (priceAt 1)) (entryPrice ?position)"
    by (simp_all add: getCurrentPrice_priceAt profitPercentOf_def)
  have t: "(900000::int) = 901000 - entryTime ?position" "(1000::int) = 2000 - entryTime ?position"
    by simp_all
  have c: "num_ge (Finite 25) (takeProfitPercent defaultConfig)"
    "(900000::int) \<ge> maxHoldTime defaultConfig"
    "\<not> num_ge (Finite (-15)) (takeProfitPercent defaultConfig)"
    "num_le (Finite (-15)) (stopLossPercent defaultConfig)"
    "\<not> num_ge (Finite 0) (takeProfitPercent defaultConfig)"
    "\<not> num_le (Finite 0) (stopLossPercent defaultConfig)"
    "\<not> (1000::int) \<ge> maxHoldTime defaultConfig"
    by (simp_all add: defaultConfig_def)
  from checkPosition_reason_priority
         [where cfg = defaultConfig and mon = openMonitor and mint = "''MINT''"
            and feeds = "priceAt (5/4)" and now = 901000 and sell = "Returns ''sig''"
            and finalFeeds = "priceAt (5/4)" and position = ?position
            and p = "Finite 25" and t = 900000]
    pos price p t c
  obtain r1 where 1: "fst ?profit = ExitFired (TakeProfitHit (Finite 25)) r1"
    by blast
  from checkPosition_reason_priority
         [where cfg = defaultConfig and mon = openMonitor and mint = "''MINT''"
            and feeds = "priceAt (17/20)" and now = 2000 and sell = Throws
            and finalFeeds = noPrice and position = ?position
            and p = "Finite (-15)" and t = 1000]
    pos price p t c
  obtain r2 where 2: "fst ?loss = ExitFired (StopLossHit (Finite (-15))) r2"
    by blast
  from checkPosition_reason_priority
         [where cfg = defaultConfig and mon = openMonitor and mint = "''MINT''"
            and feeds = "priceAt 1" and now = 901000 and sell = Throws
            and finalFeeds = noPrice and position = ?position
            and p = "Finite 0" and t = 900000]
    pos price p t c
  obtain r3 where 3: "fst ?late = ExitFired (MaxHoldTimeReached (900000 div 60000)) r3"
    by blast
  from checkPosition_reason_priority
         [where cfg = defaultConfig and mon = openMonitor and mint = "''MINT''"
            and feeds = "priceAt 1" and now = 2000 and sell = Throws
            and finalFeeds = noPrice and position = ?position
            and p = "Finite 0" and t = 1000]
    pos price p t c
  have 4: "\<not> (\<exists>why r. fst ?early = ExitFired why r)"
    by blast
  have e: "fst ?early = Held \<or> (\<exists>why r. fst ?early = ExitFired why r)"
    by (simp add: checkPosition_def openMonitor_eq getCurrentPrice_priceAt Let_def split_beta)
  have "r1 = Inr (Some \<lparr>reason = TakeProfitHit (Finite 25), signature = ''sig'', finalPrice = 5/4\<rparr>)"
    using 1
    by (simp add: checkPosition_def exitPosition_def openMonitor_eq getCurrentPrice_priceAt
          profitPercentOf_def defaultConfig_def Let_def)
  moreover have "r2 = Inl SellFailed"
    using 2
    by (simp add: checkPosition_def exitPosition_def openMonitor_eq getCurrentPrice_priceAt
          profitPercentOf_def defaultConfig_def Let_def)
  moreover have "r3 = Inl SellFailed"
    using 3
    by (simp add: checkPosition_def exitPosition_def openMonitor_eq getCurrentPrice_priceAt
          profitPercentOf_def defaultConfig_def Let_def)
  ultimately show ?thesis using 1 2 3 4 e c by simp
qed

text \<open>
  C9. When the price read in a cycle is zero or unavailable (Jupiter answers without a price for
  the mint; or Jupiter fails and DEX Screener fails, answers with no pair, or answers with a first
  pair without a price), \<open>checkPosition\<close> evaluates no exit condition and returns the monitor
  unchanged: every field of every position is as before, an active position stays active and no
  exit is triggered.
\<close>

theorem checkPosition_price_unavailable:
  assumes "getCurrentPrice feeds = 0
           \<or> jupiter feeds = Returns None
           \<or> (jupiter feeds = Throws
               \<and> (dexScreener feeds = Throws \<or> dexScreener feeds = Returns []
                   \<or> (\<exists>ps. dexScreener feeds = Returns (None # ps))))"
  shows "checkPosition cfg mon mint feeds now sell finalFeeds =
           (if hasActivePosition mon mint then PriceUnavailable else NotMonitored, mon)"
proof -
  from assms have "getCurrentPrice feeds = 0"
    by (auto simp add: getCurrentPrice_def)
  then show ?thesis
    by (simp add: checkPosition_def hasActivePosition_def Let_def split: option.split)
qed

text \<open>
  Both sources fail while the position is past its hold limit: the cycle does nothing.
\<close>

theorem checkPosition_price_unavailable_witness:
  "jupiter noPrice = Throws \<and> dexScreener noPrice = Throws
   \<and> hasActivePosition openMonitor ''MINT''
   \<and> checkPosition defaultConfig openMonitor ''MINT'' noPrice 901000 (Returns ''sig'') (priceAt 2)
       = (PriceUnavailable, openMonitor)"
proof -
  have f: "jupiter noPrice = Throws \<and> dexScreener noPrice = Throws" by (simp add: noPrice_def)
  have a: "hasActivePosition openMonitor ''MINT''"
    by (simp add: hasActivePosition_def openMonitor_eq)
  from f have "getCurrentPrice noPrice = 0
           \<or> jupiter noPrice = Returns None
           \<or> (jupiter noPrice = Throws
               \<and> (dexScreener noPrice = Throws \<or> dexScreener noPrice = Returns []
                   \<or> (\<exists>ps. dexScreener noPrice = Returns (None # ps))))" by simp
  from checkPosition_price_unavailable [OF this, of defaultConfig openMonitor "''MINT''" 901000
         "Returns ''sig''" "priceAt 2"] f a
  show ?thesis by simp
qed

section \<open>Sequences of operations\<close>

lemma step_keeps_inactive:
  assumes "map_of (positions mon) mint = Some position" and "\<not> active position"
    and "\<forall>symbol entry amount now. op \<noteq> AddPosition mint symbol entry amount now"
  shows "map_of (positions (step cfg mon op)) mint = Some position"
proof (cases op)
  case (AddPosition m symbol entry amount now)
  with assms(3) have "m \<noteq> mint" by auto
  with assms(1) AddPosition show ?thesis by (simp add: addPosition_positions)
next
  case (CheckPosition m feeds now sell finalFeeds)
  from checkPosition_state [of cfg mon m feeds now sell finalFeeds] assms(1,2)
  have "map_of (positions (snd (checkPosition cfg mon m feeds now sell finalFeeds))) mint
          = Some position"
    by (auto simp add: exitPosition_positions split: option.split)
  with CheckPosition show ?thesis by simp
next
  case (ExitPosition m why sell feeds)
  with assms(1,2) show ?thesis by (auto simp add: exitPosition_positions split: option.split)
next
  case (ManualExitOf m sell feeds)
  from manualExit_state [of mon m sell feeds] assms(1,2)
  have "map_of (positions (snd (manualExit mon m sell feeds))) mint = Some position"
    by (auto simp add: exitPosition_positions split: option.split)
  with ManualExitOf show ?thesis by simp
next
  case StopAll
  with assms(1) show ?thesis by (simp add: stopAll_positions)
qed

lemma run_keeps_inactive:
  assumes "map_of (positions mon) mint = Some position" and "\<not> active position"
    and "\<forall>symbol entry amount now. AddPosition mint symbol entry amount now \<notin> set ops"
  shows "map_of (positions (run cfg mon ops)) mint = Some position"
  using assms
proof (induction ops arbitrary: mon)
  case Nil
  then show ?case by (simp add: run_def)
next
  case (Cons op ops)
  from Cons.prems(3)
  have "\<forall>symbol entry amount now. op \<noteq> AddPosition mint symbol entry amount now"
    by auto
  with Cons.prems(1,2) have "map_of (positions (step cfg mon op)) mint = Some position"
    by (rule step_keeps_inactive)
  moreover from Cons.prems(3)
  have "\<forall>symbol entry amount now. AddPosition mint symbol entry amount now \<notin> set ops"
    by auto
  ultimately have "map_of (positions (run cfg (step cfg mon op) ops)) mint = Some position"
    using Cons.prems(2) by (intro Cons.IH)
  then show ?case by (simp add: run_Cons)
qed

text \<open>
  C5, as the claim states it, fails: \<open>addPosition\<close> stores a new record with active=true under
  a mint whose position was closed. After a buy and a sale the position under the mint is
  inactive; after a second buy of the same mint the position under it is active.
\<close>

theorem resurrection_counterexample:
  "\<not> hasActivePosition (run defaultConfig newMonitor (take 2 buyAgain)) ''MINT''
   \<and> map_of (positions (run defaultConfig newMonitor (take 2 buyAgain))) ''MINT''
       = Some \<lparr>tokenMint = ''MINT'', tokenSymbol = ''SYM'', entryPrice = 1,
                entryTime = 1000, amountSol = 1/2, active = False\<rparr>
   \<and> hasActivePosition (run defaultConfig newMonitor buyAgain) ''MINT''
   \<and> map_of (positions (run defaultConfig newMonitor buyAgain)) ''MINT''
       = Some \<lparr>tokenMint = ''MINT'', tokenSymbol = ''SYM'', entryPrice = 2,
                entryTime = 9000, amountSol = 1/2, active = True\<rparr>"
  by (simp add: run_def buyAgain_def addPosition_def startMonitoring_def newMonitor_def
        manualExit_def exitPosition_def hasActivePosition_def Let_def AList.delete_eq)

text \<open>
  C5, amended. For every mint, once the position stored under that mint has active=false, every
  later sequence of \<open>checkPosition\<close>, \<open>exitPosition\<close>, \<open>manualExit\<close> and \<open>stopAll\<close>
  (for any mint) and of \<open>addPosition\<close> for other mints leaves that same record stored under
  the mint, with active=false; only \<open>addPosition\<close> for that mint replaces it, by a new record
  with active=true.
\<close>

theorem inactive_until_addPosition:
  assumes "map_of (positions mon) mint = Some position" and "\<not> active position"
    and "\<forall>symbol entry amount now. AddPosition mint symbol entry amount now \<notin> set ops"
  shows "map_of (positions (run cfg mon ops)) mint = Some position
       \<and> \<not> hasActivePosition (run cfg mon ops) mint
       \<and> hasActivePosition
           (step cfg (run cfg mon ops) (AddPosition mint symbol entry amount now)) mint"
proof -
  from assms have "map_of (positions (run cfg mon ops)) mint = Some position"
    by (rule run_keeps_inactive)
  moreover from this assms(2) have "\<not> hasActivePosition (run cfg mon ops) mint"
    by (simp add: hasActivePosition_def)
  moreover have "hasActivePosition
      (step cfg (run cfg mon ops) (AddPosition mint symbol entry amount now)) mint"
    by (simp add: addPosition_hasActive)
  ultimately show ?thesis by blast
qed

text \<open>
  The closed position of the example stays closed through a buy of two other mints and a cycle
  that sells one of them, and is active again after a buy of its own mint.
\<close>

theorem inactive_until_addPosition_witness:
  "map_of (positions (run defaultConfig newMonitor (take 2 buyAgain))) ''MINT''
     = Some \<lparr>tokenMint = ''MINT'', tokenSymbol = ''SYM'', entryPrice = 1,
              entryTime = 1000, amountSol = 1/2, active = False\<rparr>
   \<and> map_of (positions (run defaultConfig (run defaultConfig newMonitor (take 2 buyAgain)) twoMints))
        ''MINT''
     = Some \<lparr>tokenMint = ''MINT'', tokenSymbol = ''SYM'', entryPrice = 1,
              entryTime = 1000, amountSol = 1/2, active = False\<rparr>
   \<and> \<not> hasActivePosition
         (run defaultConfig (run defaultConfig newMonitor (take 2 buyAgain)) twoMints) ''MINT''
   \<and> hasActivePosition
         (step defaultConfig
            (run defaultConfig (run defaultConfig newMonitor (take 2 buyAgain)) twoMints)
            (AddPosition ''MINT'' ''SYM'' 2 (1/2) 9000)) ''MINT''"
proof -
  let ?position = "\<lparr>tokenMint = ''MINT'', tokenSymbol = ''SYM'', entryPrice = 1,
                       entryTime = 1000, amountSol = 1/2, active = False\<rparr>"
  have 1: "map_of (positions (run defaultConfig newMonitor (take 2 buyAgain))) ''MINT''
             = Some ?position"
    by (simp add: run_sold)
  have 2: "\<not> active ?position" by simp
  have 3: "\<forall>symbol entry amount now. AddPosition ''MINT'' symbol entry amount now \<notin> set twoMints"
    by (simp add: twoMints_def)
  from inactive_until_addPosition [OF 1 2 3, of defaultConfig "''SYM''" 2 "1/2" 9000] 1
  show ?thesis by simp
qed

subsection \<open>Monitoring tasks and active positions\<close>

lemma step_task_implies_active:
  assumes "\<forall>m. map_of (monitoringIntervals mon) m \<noteq> None \<longrightarrow> hasActivePosition mon m"
  shows "\<forall>m. map_of (monitoringIntervals (step cfg mon op)) m \<noteq> None
             \<longrightarrow> hasActivePosition (step cfg mon op) m"
proof (cases op)
  case (AddPosition mint symbol entry amount now)
  with assms show ?thesis by (simp add: addPosition_intervals addPosition_hasActive)
next
  case (CheckPosition mint feeds now sell finalFeeds)
  from checkPosition_state [of cfg mon mint feeds now sell finalFeeds] assms
  have "\<forall>m. map_of (monitoringIntervals
                      (snd (checkPosition cfg mon mint feeds now sell finalFeeds))) m \<noteq> None
            \<longrightarrow> hasActivePosition (snd (checkPosition cfg mon mint feeds now sell finalFeeds)) m"
    by (auto simp add: exitPosition_intervals exitPosition_hasActive split: if_splits)
  with CheckPosition show ?thesis by simp
next
  case (ExitPosition mint why sell feeds)
  with assms show ?thesis
    by (auto simp add: exitPosition_intervals exitPosition_hasActive split: if_splits)
next
  case (ManualExitOf mint sell feeds)
  from manualExit_state [of mon mint sell feeds] assms
  have "\<forall>m. map_of (monitoringIntervals (snd (manualExit mon mint sell feeds))) m \<noteq> None
            \<longrightarrow> hasActivePosition (snd (manualExit mon mint sell feeds)) m"
    by (auto simp add: exitPosition_intervals exitPosition_hasActive split: if_splits)
  with ManualExitOf show ?thesis by simp
next
  case StopAll
  then show ?thesis by (simp add: stopAll_intervals)
qed

lemma step_active_implies_task:
  assumes "\<forall>m. hasActivePosition mon m \<longrightarrow> map_of (monitoringIntervals mon) m \<noteq> None"
    and "op \<noteq> StopAll"
  shows "\<forall>m. hasActivePosition (step cfg mon op) m
             \<longrightarrow> map_of (monitoringIntervals (step cfg mon op)) m \<noteq> None"
proof (cases op)
  case (AddPosition mint symbol entry amount now)
  with assms show ?thesis by (simp add: addPosition_intervals addPosition_hasActive)
next
  case (CheckPosition mint feeds now sell finalFeeds)
  from checkPosition_state [of cfg mon mint feeds now sell finalFeeds] assms(1)
  have "\<forall>m. hasActivePosition (snd (checkPosition cfg mon mint feeds now sell finalFeeds)) m
            \<longrightarrow> map_of (monitoringIntervals
                          (snd (checkPosition cfg mon mint feeds now sell finalFeeds))) m \<noteq> None"
    by (auto simp add: exitPosition_intervals exitPosition_hasActive split: if_splits)
  with CheckPosition show ?thesis by simp
next
  case (ExitPosition mint why sell feeds)
  with assms(1) show ?thesis
    by (auto simp add: exitPosition_intervals exitPosition_hasActive split: if_splits)
next
  case (ManualExitOf mint sell feeds)
  from manualExit_state [of mon mint sell feeds] assms(1)
  have "\<forall>m. hasActivePosition (snd (manualExit mon mint sell feeds)) m
            \<longrightarrow> map_of (monitoringIntervals (snd (manualExit mon mint sell feeds))) m \<noteq> None"
    by (auto simp add: exitPosition_intervals exitPosition_hasActive split: if_splits)
  with ManualExitOf show ?thesis by simp
next
  case StopAll
  with assms(2) show ?thesis by simp
qed

lemma run_task_implies_active:
  "\<forall>m. map_of (monitoringIntervals (run cfg newMonitor ops)) m \<noteq> None
        \<longrightarrow> hasActivePosition (run cfg newMonitor ops) m"
proof (induction ops rule: rev_induct)
  case Nil
  show ?case by (simp add: run_def newMonitor_def)
next
  case (snoc op ops)
  then show ?case unfolding run_snoc by (rule step_task_implies_active)
qed

lemma run_active_implies_task:
  "StopAll \<notin> set ops \<Longrightarrow>
   \<forall>m. hasActivePosition (run cfg newMonitor ops) m
        \<longrightarrow> map_of (monitoringIntervals (run cfg newMonitor ops)) m \<noteq> None"
proof (induction ops rule: rev_induct)
  case Nil
  show ?case by (simp add: run_def newMonitor_def hasActivePosition_def)
next
  case (snoc op ops)
  then have "\<forall>m. hasActivePosition (run cfg newMonitor ops) m
        \<longrightarrow> map_of (monitoringIntervals (run cfg newMonitor ops)) m \<noteq> None" and "op \<noteq> StopAll"
    by auto
  then show ?case unfolding run_snoc by (rule step_active_implies_task)
qed

text \<open>
  C6, as the claim states it, fails: \<open>stopAll\<close> clears the interval map and leaves the
  positions as they are, so after it an active position has no monitoring task.
\<close>

theorem stopAll_counterexample:
  "hasActivePosition (run defaultConfig newMonitor shutdown) ''MINT''
   \<and> map_of (monitoringIntervals (run defaultConfig newMonitor shutdown)) ''MINT'' = None"
  by (simp add: run_def shutdown_def addPosition_def startMonitoring_def newMonitor_def
        stopAll_def hasActivePosition_def Let_def)

text \<open>
  C6, amended. In every state of the monitor reachable from the empty one by any sequence of
  \<open>addPosition\<close>, \<open>checkPosition\<close>, \<open>exitPosition\<close>, \<open>manualExit\<close> and \<open>stopAll\<close>,
  each run to its end before the next, a mint has an entry in the interval map only if it has a
  position with active=true; and in every state reached without \<open>stopAll\<close>, a mint has an
  entry in the interval map if and only if it has a position with active=true.
\<close>

theorem monitoring_task_invariant:
  "(\<forall>mint. map_of (monitoringIntervals (run cfg newMonitor ops)) mint \<noteq> None
            \<longrightarrow> hasActivePosition (run cfg newMonitor ops) mint)
   \<and> (StopAll \<notin> set ops \<longrightarrow>
        (\<forall>mint. hasActivePosition (run cfg newMonitor ops) mint
                 = (map_of (monitoringIntervals (run cfg newMonitor ops)) mint \<noteq> None)))"
  using run_task_implies_active [of cfg ops] run_active_implies_task [of ops cfg] by blast

text \<open>
  Two buys and a cycle that sells the first: the second mint is active and monitored, the first
  is neither.
\<close>

theorem monitoring_task_invariant_witness:
  "StopAll \<notin> set twoMints
   \<and> (\<forall>mint. hasActivePosition (run defaultConfig newMonitor twoMints) mint
              = (map_of (monitoringIntervals (run defaultConfig newMonitor twoMints)) mint \<noteq> None))
   \<and> hasActivePosition (run defaultConfig newMonitor twoMints) ''BBB''
   \<and> map_of (monitoringIntervals (run defaultConfig newMonitor twoMints)) ''BBB'' = Some 1
   \<and> \<not> hasActivePosition (run defaultConfig newMonitor twoMints) ''AAA''
   \<and> map_of (monitoringIntervals (run defaultConfig newMonitor twoMints)) ''AAA'' = None"
proof -
  have n: "StopAll \<notin> set twoMints" by (simp add: twoMints_def)
  with monitoring_task_invariant [of defaultConfig twoMints]
  have "\<forall>mint. hasActivePosition (run defaultConfig newMonitor twoMints) mint
              = (map_of (monitoringIntervals (run defaultConfig newMonitor twoMints)) mint \<noteq> None)"
    by blast
  moreover
  have "map_of (monitoringIntervals (run defaultConfig newMonitor twoMints)) ''BBB'' = Some 1"
    and "map_of (monitoringIntervals (run defaultConfig newMonitor twoMints)) ''AAA'' = None"
    by (simp_all add: run_twoMints)
  ultimately show ?thesis using n by simp
qed

section \<open>Authorization\<close>

text \<open>
  C10. If the configured list of authorized users is empty, \<open>isAuthorized\<close> is true for every
  user id; otherwise it is true exactly when the id, written in decimal, is an element of the
  list.
\<close>

theorem isAuthorized_allow_list:
  "(authorizedUsers cfg = [] \<longrightarrow> isAuthorized cfg userId)
   \<and> (authorizedUsers cfg \<noteq> [] \<longrightarrow>
        isAuthorized cfg userId = (toString userId \<in> set (authorizedUsers cfg)))"
  by (simp add: isAuthorized_def)

text \<open>
  With no \<open>AUTHORIZED_USERS\<close> the list is empty and any id passes; with \<open>123,456\<close> the id 456
  passes and 789 does not.
\<close>

theorem isAuthorized_allow_list_witness:
  "authorizedUsers defaultConfig = [] \<and> isAuthorized defaultConfig 789
   \<and> authorizedUsers allowTwo = [''123'', ''456'']
   \<and> toString 456 = ''456'' \<and> isAuthorized allowTwo 456
   \<and> toString 789 = ''789'' \<and> \<not> isAuthorized allowTwo 789"
proof -
  have e: "authorizedUsers defaultConfig = []"
    by (simp add: defaultConfig_def parseAuthorizedUsers_def)
  have "parseAuthorizedUsers (Some ''123,456'') = [''123'', ''456'']" by code_simp
  then have u: "authorizedUsers allowTwo = [''123'', ''456'']" by (simp add: allowTwo_def)
  have s: "toString 456 = ''456''" "toString 789 = ''789''" by code_simp+
  from isAuthorized_allow_list [of defaultConfig 789] isAuthorized_allow_list [of allowTwo 456]
    isAuthorized_allow_list [of allowTwo 789] e u s
  show ?thesis by simp
qed

end
